theory Spec2Isabelle
  imports Main "HOL-Library.Word"
begin

section \<open>The XCB native window of AzFramework (XcbNativeWindow.cpp)\<close>

text \<open>
  A shallow embedding of \<^verbatim>\<open>AzFramework::XcbNativeWindow\<close>. The object is a record of
  its member variables; a member function takes the record and returns the updated
  record together with the list of effects it issued, in program order: requests put on
  the XCB connection, notifications on the window notification bus, the exit broadcast,
  and the lines it prints. What the X server answers (a property reply, an error of a
  checked request, the next event) is an argument of the function that reads it.

  The class is declared in XcbNativeWindow.h and NativeWindow.h, which are not among
  the sources. The members are those the member functions use; \<open>m_width\<close> and
  \<open>m_height\<close> are 32-bit unsigned, as the arguments of \<^verbatim>\<open>WindowSizeChanged\<close> they are
  compared with and assigned from. The window is one that InitWindow has set up, so
  \<open>m_xcbRootScreen\<close> is the screen it points at.

  Names are the source's. A member whose C++ name starts with an underscore
  (\<^verbatim>\<open>_NET_WM_STATE\<close>) drops it, and fields of the XCB structs carry the struct's
  initials, since a field name is a constant of the whole theory.
\<close>

subsection \<open>XCB types and constants\<close>

type_synonym xcb_window_t = "32 word"
type_synonym xcb_atom_t = "32 word"
type_synonym xcb_pixmap_t = "32 word"
type_synonym xcb_gcontext_t = "32 word"

definition XCB_NONE :: "32 word" where
  "XCB_NONE = 0"

definition XCB_ATOM_ATOM :: xcb_atom_t where
  "XCB_ATOM_ATOM = 4"

definition XCB_ATOM_CARDINAL :: xcb_atom_t where
  "XCB_ATOM_CARDINAL = 6"

definition XCB_PROP_MODE_REPLACE :: "8 word" where
  "XCB_PROP_MODE_REPLACE = 0"

definition XCB_EXPOSE :: "8 word" where
  "XCB_EXPOSE = 12"

definition XCB_CONFIGURE_NOTIFY :: "8 word" where
  "XCB_CONFIGURE_NOTIFY = 22"

definition XCB_CLIENT_MESSAGE :: "8 word" where
  "XCB_CLIENT_MESSAGE = 33"

definition XCB_EVENT_MASK_STRUCTURE_NOTIFY :: "32 word" where
  "XCB_EVENT_MASK_STRUCTURE_NOTIFY = 131072"

definition XCB_EVENT_MASK_SUBSTRUCTURE_REDIRECT :: "32 word" where
  "XCB_EVENT_MASK_SUBSTRUCTURE_REDIRECT = 1048576"

text \<open>The file's own constants (lines 25 to 30).\<close>

definition s_XcbFormatDataSize :: "8 word" where
  "s_XcbFormatDataSize = 32"

definition NET_WM_STATE_REMOVE :: "32 word" where
  "NET_WM_STATE_REMOVE = 0"

definition NET_WM_STATE_ADD :: "32 word" where
  "NET_WM_STATE_ADD = 1"

definition NET_WM_STATE_TOGGLE :: "32 word" where
  "NET_WM_STATE_TOGGLE = 2"

text \<open>The five 32-bit words of \<^verbatim>\<open>xcb_client_message_data_t.data32\<close>.\<close>

datatype xcb_client_message_data_t =
  Data32 (data32_0: "32 word") (data32_1: "32 word") (data32_2: "32 word")
         (data32_3: "32 word") (data32_4: "32 word")

record xcb_client_message_event_t =
  cme_response_type :: "8 word"
  cme_format :: "8 word"
  cme_sequence :: "16 word"
  cme_window :: xcb_window_t
  cme_type :: xcb_atom_t
  cme_data :: xcb_client_message_data_t

record xcb_configure_notify_event_t =
  cne_response_type :: "8 word"
  cne_width :: "16 word"
  cne_height :: "16 word"

record xcb_expose_event_t =
  ee_x :: "16 word"
  ee_y :: "16 word"
  ee_width :: "16 word"
  ee_height :: "16 word"

text \<open>
  \<^verbatim>\<open>xcb_generic_event_t\<close>: the response type, and what the event's bytes are when
  the code casts the pointer to a configure-notify, a client-message or an expose event.
  The code reads one of them, chosen by the response type.
\<close>

record xcb_generic_event_t =
  response_type :: "8 word"
  as_configure_notify :: xcb_configure_notify_event_t
  as_client_message :: xcb_client_message_event_t
  as_expose :: xcb_expose_event_t

record xcb_generic_error_t =
  error_code :: "8 word"

record xcb_intern_atom_reply_t =
  atom :: xcb_atom_t

text \<open>
  \<^verbatim>\<open>xcb_get_property_reply_t\<close> with its value. The reply's \<^verbatim>\<open>length\<close> field counts
  the 4-byte units of the value that follows, so it is the length of \<open>gpr_value\<close>, and
  for a reply of format 32 each unit is one atom.
\<close>

record xcb_get_property_reply_t =
  gpr_format :: "8 word"
  gpr_type :: xcb_atom_t
  gpr_value :: "xcb_atom_t list"

record xcb_screen_t =
  root :: xcb_window_t
  root_depth :: "8 word"

subsection \<open>Effects\<close>

text \<open>
  The data a property write points at: the atom array of InitializeAtoms, or the
  \<^verbatim>\<open>long\<close> that SetFullScreenState passes by address.
\<close>

datatype property_data =
  AtomArray "xcb_atom_t list"
| LongAt "64 word"

text \<open>
  An effect is a request on the connection with the arguments the code passes, a
  bus call, or a diagnostic: \<open>Printf\<close> a line of \<^verbatim>\<open>printf\<close>, \<open>PrintfErrorCode\<close> the
  line \<^verbatim>\<open>Error in xcb_create_pixmap: %d\<close>, \<open>TracePrintfErrorCode\<close> the trace
  \<^verbatim>\<open>Error code %d\<close>, \<open>Warning\<close> an \<^verbatim>\<open>AZ_Warning\<close> and \<open>ErrorMessage\<close> an \<^verbatim>\<open>AZ_Error\<close>.
  \<open>XcbImagePut\<close> stands for the three image calls of lines 315 to 318, with the
  width, height, byte count and data of the image. The width and height of a pixmap
  and of an image are \<^verbatim>\<open>uint16_t\<close> parameters and the byte count is a \<^verbatim>\<open>uint32_t\<close> one,
  so the \<^verbatim>\<open>int\<close> values the code passes are cut to 16 and 32 bits. The arguments
  of \<open>XcbSendEvent\<close> are the propagate flag, the destination window, the event mask and
  the event; those of a property write are the mode, the window, the property, the
  type, the format, the number of elements and the data.
\<close>

datatype effect =
  XcbSendEvent "8 word" xcb_window_t "32 word" xcb_client_message_event_t
| XcbChangeProperty "8 word" xcb_window_t xcb_atom_t xcb_atom_t "8 word" nat property_data
| XcbChangePropertyChecked "8 word" xcb_window_t xcb_atom_t xcb_atom_t "8 word" nat property_data
| XcbGetProperty "8 word" xcb_window_t xcb_atom_t xcb_atom_t "32 word" "32 word"
| XcbInternAtom "8 word" nat string
| XcbMapWindow xcb_window_t
| XcbUnmapWindow xcb_window_t
| XcbGenerateId
| XcbCreatePixmapChecked "8 word" xcb_pixmap_t xcb_window_t "16 word" "16 word"
| XcbImagePut xcb_pixmap_t xcb_gcontext_t "16 word" "16 word" "32 word" "8 word list"
| XcbCopyArea xcb_pixmap_t xcb_window_t xcb_gcontext_t "16 word" "16 word" "16 word" "16 word"
    "16 word" "16 word"
| XcbWaitForEvent
| XcbFreePixmap xcb_pixmap_t
| XcbFlush
| BusConnect
| BusDisconnect
| OnWindowClosed xcb_window_t
| OnWindowResized xcb_window_t "32 word" "32 word"
| OnResolutionChanged xcb_window_t "32 word" "32 word"
| ExitMainLoop
| Printf string
| PrintfErrorCode "8 word"
| TracePrintfErrorCode "8 word"
| Warning string
| ErrorMessage string

fun is_server_request :: "effect \<Rightarrow> bool" where
  "is_server_request BusConnect = False"
| "is_server_request BusDisconnect = False"
| "is_server_request (OnWindowClosed h) = False"
| "is_server_request (OnWindowResized h a b) = False"
| "is_server_request (OnResolutionChanged h a b) = False"
| "is_server_request ExitMainLoop = False"
| "is_server_request (Printf s) = False"
| "is_server_request (PrintfErrorCode c) = False"
| "is_server_request (TracePrintfErrorCode c) = False"
| "is_server_request (Warning s) = False"
| "is_server_request (ErrorMessage s) = False"
| "is_server_request e = True"

fun is_notification :: "effect \<Rightarrow> bool" where
  "is_notification (OnWindowClosed h) = True"
| "is_notification (OnWindowResized h a b) = True"
| "is_notification (OnResolutionChanged h a b) = True"
| "is_notification ExitMainLoop = True"
| "is_notification e = False"

fun is_send_event :: "effect \<Rightarrow> bool" where
  "is_send_event (XcbSendEvent p d m e) = True"
| "is_send_event e = False"

subsection \<open>The window object\<close>

record XcbNativeWindow =
  m_xcbRootScreen :: xcb_screen_t
  m_xcbWindow :: xcb_window_t
  m_xcbGraphicContext :: xcb_gcontext_t
  m_width :: "32 word"
  m_height :: "32 word"
  m_activated :: bool
  m_enableCustomizedResolution :: bool
  m_fullscreenState :: bool
  m_horizontalyMaximized :: bool
  m_verticallyMaximized :: bool
  NET_ACTIVE_WINDOW :: xcb_atom_t
  NET_WM_BYPASS_COMPOSITOR :: xcb_atom_t
  WM_PROTOCOLS :: xcb_atom_t
  WM_DELETE_WINDOW :: xcb_atom_t
  NET_WM_PING :: xcb_atom_t
  NET_WM_STATE :: xcb_atom_t
  NET_WM_STATE_FULLSCREEN :: xcb_atom_t
  NET_WM_STATE_MAXIMIZED_VERT :: xcb_atom_t
  NET_WM_STATE_MAXIMIZED_HORZ :: xcb_atom_t
  NET_MOVERESIZE_WINDOW :: xcb_atom_t
  NET_REQUEST_FRAME_EXTENTS :: xcb_atom_t
  NET_FRAME_EXTENTS :: xcb_atom_t
  NET_WM_PID :: xcb_atom_t

subsection \<open>WindowSizeChanged (lines 575 to 592)\<close>

definition WindowSizeChanged ::
  "32 word \<Rightarrow> 32 word \<Rightarrow> XcbNativeWindow \<Rightarrow> XcbNativeWindow \<times> effect list" where
  "WindowSizeChanged width height w =
     (if m_width w \<noteq> width \<or> m_height w \<noteq> height then
        (w\<lparr>m_width := width, m_height := height\<rparr>,
         if m_activated w then
           OnWindowResized (m_xcbWindow w) width height #
           (if m_enableCustomizedResolution w then []
            else [OnResolutionChanged (m_xcbWindow w) width height])
         else [])
      else (w, []))"

subsection \<open>Deactivate (lines 371 to 383)\<close>

definition Deactivate :: "XcbNativeWindow \<Rightarrow> XcbNativeWindow \<times> effect list" where
  "Deactivate w =
     (if m_activated w then
        (w\<lparr>m_activated := False\<rparr>,
         [OnWindowClosed (m_xcbWindow w), XcbUnmapWindow (m_xcbWindow w), XcbFlush,
          BusDisconnect])
      else (w, [BusDisconnect]))"

subsection \<open>HandleXcbEvent (lines 528 to 572)\<close>

text \<open>
  The constant \<^verbatim>\<open>s_XcbResponseTypeMask\<close> is declared in XcbInterface.h, which is not
  among the sources, so it is the first argument of HandleXcbEvent. A mask of 0x7f
  strips the bit 0x80 that marks an event sent by another client, as
  \<^verbatim>\<open>event->response_type & ~0x80\<close> does in DrawSplash (line 325).
\<close>

definition XcbRootEventMask :: "32 word" where
  "XcbRootEventMask =
     or XCB_EVENT_MASK_STRUCTURE_NOTIFY XCB_EVENT_MASK_SUBSTRUCTURE_REDIRECT"

definition HandleXcbEvent ::
  "8 word \<Rightarrow> xcb_generic_event_t \<Rightarrow> XcbNativeWindow \<Rightarrow> XcbNativeWindow \<times> effect list" where
  "HandleXcbEvent s_XcbResponseTypeMask event w =
     (let kind = and (response_type event) s_XcbResponseTypeMask in
      if kind = XCB_CONFIGURE_NOTIFY then
        (let cne = as_configure_notify event in
         if ucast (cne_width cne) \<noteq> m_width w \<or> ucast (cne_height cne) \<noteq> m_height w
         then WindowSizeChanged (ucast (cne_width cne)) (ucast (cne_height cne)) w
         else (w, []))
      else if kind = XCB_CLIENT_MESSAGE then
        (let cme = as_client_message event in
         if cme_type cme = WM_PROTOCOLS w \<and> cme_format cme = s_XcbFormatDataSize then
           (let protocolAtom = data32_0 (cme_data cme) in
            if protocolAtom = WM_DELETE_WINDOW w then
              (let (w', out) = Deactivate w in (w', out @ [ExitMainLoop]))
            else if protocolAtom = NET_WM_PING w \<and> cme_window cme \<noteq> root (m_xcbRootScreen w)
            then
              (let reply = cme\<lparr>cme_response_type := XCB_CLIENT_MESSAGE,
                                cme_window := root (m_xcbRootScreen w)\<rparr>
               in (w, [XcbSendEvent 0 (root (m_xcbRootScreen w)) XcbRootEventMask reply,
                       XcbFlush]))
            else (w, []))
         else (w, []))
      else (w, []))"

subsection \<open>GetAtom and InitializeAtoms (lines 140 to 203)\<close>

text \<open>
  GetAtom sends one InternAtom request and waits for its reply; \<open>reply\<close> is what
  \<^verbatim>\<open>xcb_intern_atom_reply\<close> returns, \<open>None\<close> for a null pointer.
\<close>

definition GetAtom ::
  "string \<Rightarrow> xcb_intern_atom_reply_t option \<Rightarrow> xcb_atom_t \<times> effect list" where
  "GetAtom atomName reply =
     (case reply of
        None \<Rightarrow>
          (XCB_NONE,
           [XcbInternAtom 0 (length atomName) atomName,
            ErrorMessage
              (''Unable to query xcb '' @ [CHR 0x27] @ atomName @ [CHR 0x27] @ '' atom'')])
      | Some xkbinternAtom \<Rightarrow>
          (atom xkbinternAtom, [XcbInternAtom 0 (length atomName) atomName]))"

text \<open>
  InitializeAtoms stores the result of thirteen GetAtom calls. \<open>server\<close> is the X
  server's answer to an InternAtom request for a name.
\<close>

definition InitializeAtoms ::
  "(string \<Rightarrow> xcb_intern_atom_reply_t option) \<Rightarrow> XcbNativeWindow \<Rightarrow>
     XcbNativeWindow \<times> effect list" where
  "InitializeAtoms server w0 =
     (let (a1, o1) = GetAtom ''_NET_ACTIVE_WINDOW'' (server ''_NET_ACTIVE_WINDOW'');
          w1 = w0\<lparr>NET_ACTIVE_WINDOW := a1\<rparr>;
          (a2, o2) = GetAtom ''_NET_WM_BYPASS_COMPOSITOR'' (server ''_NET_WM_BYPASS_COMPOSITOR'');
          w2 = w1\<lparr>NET_WM_BYPASS_COMPOSITOR := a2\<rparr>;
          (a3, o3) = GetAtom ''WM_PROTOCOLS'' (server ''WM_PROTOCOLS'');
          w3 = w2\<lparr>WM_PROTOCOLS := a3\<rparr>;
          (a4, o4) = GetAtom ''WM_DELETE_WINDOW'' (server ''WM_DELETE_WINDOW'');
          w4 = w3\<lparr>WM_DELETE_WINDOW := a4\<rparr>;
          (a5, o5) = GetAtom ''_NET_WM_PING'' (server ''_NET_WM_PING'');
          w5 = w4\<lparr>NET_WM_PING := a5\<rparr>;
          atoms = [WM_DELETE_WINDOW w5, NET_WM_PING w5];
          o6 = [XcbChangeProperty XCB_PROP_MODE_REPLACE (m_xcbWindow w5) (WM_PROTOCOLS w5)
                  XCB_ATOM_ATOM 32 (length atoms) (AtomArray atoms),
                XcbFlush];
          (a7, o7) = GetAtom ''_NET_WM_STATE'' (server ''_NET_WM_STATE'');
          w7 = w5\<lparr>NET_WM_STATE := a7\<rparr>;
          (a8, o8) = GetAtom ''_NET_WM_STATE_FULLSCREEN'' (server ''_NET_WM_STATE_FULLSCREEN'');
          w8 = w7\<lparr>NET_WM_STATE_FULLSCREEN := a8\<rparr>;
          (a9, o9) = GetAtom ''_NET_WM_STATE_MAXIMIZED_VERT''
                       (server ''_NET_WM_STATE_MAXIMIZED_VERT'');
          w9 = w8\<lparr>NET_WM_STATE_MAXIMIZED_VERT := a9\<rparr>;
          (a10, o10) = GetAtom ''_NET_WM_STATE_MAXIMIZED_HORZ''
                         (server ''_NET_WM_STATE_MAXIMIZED_HORZ'');
          w10 = w9\<lparr>NET_WM_STATE_MAXIMIZED_HORZ := a10\<rparr>;
          (a11, o11) = GetAtom ''_NET_MOVERESIZE_WINDOW'' (server ''_NET_MOVERESIZE_WINDOW'');
          w11 = w10\<lparr>NET_MOVERESIZE_WINDOW := a11\<rparr>;
          (a12, o12) = GetAtom ''_NET_REQUEST_FRAME_EXTENTS''
                         (server ''_NET_REQUEST_FRAME_EXTENTS'');
          w12 = w11\<lparr>NET_REQUEST_FRAME_EXTENTS := a12\<rparr>;
          (a13, o13) = GetAtom ''_NET_FRAME_EXTENTS'' (server ''_NET_FRAME_EXTENTS'');
          w13 = w12\<lparr>NET_FRAME_EXTENTS := a13\<rparr>;
          (a14, o14) = GetAtom ''_NET_WM_PID'' (server ''_NET_WM_PID'');
          w14 = w13\<lparr>NET_WM_PID := a14\<rparr>
      in (w14,
          o1 @ o2 @ o3 @ o4 @ o5 @ o6 @ o7 @ o8 @ o9 @ o10 @ o11 @ o12 @ o13 @ o14))"

text \<open>The names an effect list asks the server to intern, in order.\<close>

fun interned_names :: "effect list \<Rightarrow> string list" where
  "interned_names [] = []"
| "interned_names (XcbInternAtom only_if_exists len name # es) = name # interned_names es"
| "interned_names (e # es) = interned_names es"

subsection \<open>GetWMStates (lines 205 to 244)\<close>

text \<open>
  The loop over the atoms of the reply. Each atom is compared with the three state
  atoms in the order of the source's if / else-if chain.
\<close>

fun GetWMStates_loop :: "xcb_atom_t list \<Rightarrow> XcbNativeWindow \<Rightarrow> XcbNativeWindow" where
  "GetWMStates_loop [] w = w"
| "GetWMStates_loop (s # states) w =
     GetWMStates_loop states
       (if s = NET_WM_STATE_FULLSCREEN w then w\<lparr>m_fullscreenState := True\<rparr>
        else if s = NET_WM_STATE_MAXIMIZED_HORZ w then w\<lparr>m_horizontalyMaximized := True\<rparr>
        else if s = NET_WM_STATE_MAXIMIZED_VERT w then w\<lparr>m_verticallyMaximized := True\<rparr>
        else w)"

text \<open>
  \<open>xkbGetPropertyReply\<close> and \<open>error\<close> are what \<^verbatim>\<open>xcb_get_property_reply\<close> returns
  and stores, \<open>None\<close> for a null pointer. The test of line 212 fails the query when
  there is no reply, when there is an error, or when the reply is not a list of 32-bit
  atoms.
\<close>

definition GetWMStates ::
  "xcb_get_property_reply_t option \<Rightarrow> xcb_generic_error_t option \<Rightarrow> XcbNativeWindow \<Rightarrow>
     XcbNativeWindow \<times> effect list" where
  "GetWMStates xkbGetPropertyReply error w =
     (let request = XcbGetProperty 0 (m_xcbWindow w) (NET_WM_STATE w) XCB_ATOM_ATOM 0 1024;
          failed =
            (w,
             [request, Warning ''Acquiring _NET_WM_STATE information from the WM failed.''] @
             (case error of None \<Rightarrow> [] | Some e \<Rightarrow> [TracePrintfErrorCode (error_code e)]))
      in case xkbGetPropertyReply of
           None \<Rightarrow> failed
         | Some r \<Rightarrow>
             if error \<noteq> None \<or> \<not> (gpr_format r = 32 \<and> gpr_type r = XCB_ATOM_ATOM)
             then failed
             else
               (GetWMStates_loop (gpr_value r)
                  (w\<lparr>m_fullscreenState := False, m_horizontalyMaximized := False,
                     m_verticallyMaximized := False\<rparr>),
                [request]))"

subsection \<open>SetAtom and SetFullScreenState (lines 154 to 165 and 454 to 513)\<close>

text \<open>
  SetAtom sends a checked property write of format 32 and returns the error code of
  the check, 0 when there is none. \<open>xkbError\<close> is what \<^verbatim>\<open>xcb_request_check\<close> returns.
\<close>

definition SetAtom ::
  "xcb_window_t \<Rightarrow> xcb_atom_t \<Rightarrow> xcb_atom_t \<Rightarrow> nat \<Rightarrow> property_data \<Rightarrow>
     xcb_generic_error_t option \<Rightarrow> int \<times> effect list" where
  "SetAtom window atm type len data xkbError =
     ((case xkbError of None \<Rightarrow> 0 | Some e \<Rightarrow> uint (error_code e)),
      [XcbChangePropertyChecked XCB_PROP_MODE_REPLACE window atm type 32 len data])"

text \<open>
  SetFullScreenState. The arguments after the target are the server's answers: the
  reply and error of the property query inside GetWMStates, and the error of the
  checked property write inside SetAtom. The \<^verbatim>\<open>AZ_Assert\<close> lines only report; they are
  left out.
\<close>

definition SetFullScreenState ::
  "bool \<Rightarrow> xcb_get_property_reply_t option \<Rightarrow> xcb_generic_error_t option \<Rightarrow>
     xcb_generic_error_t option \<Rightarrow> XcbNativeWindow \<Rightarrow> XcbNativeWindow \<times> effect list" where
  "SetFullScreenState fullScreenState xkbGetPropertyReply error xkbError w0 =
     (let (w, o1) = GetWMStates xkbGetPropertyReply error w0;
          event = \<lparr>cme_response_type = XCB_CLIENT_MESSAGE,
                   cme_format = 32,
                   cme_sequence = 0,
                   cme_window = m_xcbWindow w,
                   cme_type = NET_WM_STATE w,
                   cme_data = Data32
                     (if fullScreenState then NET_WM_STATE_ADD else NET_WM_STATE_REMOVE)
                     (NET_WM_STATE_FULLSCREEN w) 0 1 0\<rparr>;
          o2 = [XcbSendEvent 1 (root (m_xcbRootScreen w)) XcbRootEventMask event];
          NET_WM_BYPASS_COMPOSITOR_HINT_ON = (if m_fullscreenState w then 1 else 0);
          (rc, o3) = SetAtom (m_xcbWindow w) (NET_WM_BYPASS_COMPOSITOR w) XCB_ATOM_CARDINAL 32
                       (LongAt NET_WM_BYPASS_COMPOSITOR_HINT_ON) xkbError;
          o4 = (if \<not> fullScreenState then
                  (if m_horizontalyMaximized w \<or> m_verticallyMaximized w then
                     (let event = \<lparr>cme_response_type = XCB_CLIENT_MESSAGE,
                                     cme_format = 32,
                                     cme_sequence = 0,
                                     cme_window = m_xcbWindow w,
                                     cme_type = NET_WM_STATE w,
                                     cme_data = Data32
                                       (NET_WM_STATE_MAXIMIZED_VERT w)
                                       (NET_WM_STATE_MAXIMIZED_HORZ w) 0 0 0\<rparr>
                      in [Printf ''Remove maximized state.\<newline>'',
                          XcbSendEvent 1 (root (m_xcbRootScreen w)) XcbRootEventMask event])
                   else [])
                else [])
      in (w\<lparr>m_fullscreenState := fullScreenState\<rparr>, o1 @ o2 @ o3 @ o4 @ [XcbFlush]))"

subsection \<open>DrawSplash and Activate (lines 246 to 368)\<close>

text \<open>
  What DrawSplash reads from outside the window object: the settings registry (\<open>None\<close>
  for a null pointer, else its lookup of a string value), the file that \<^verbatim>\<open>fopen\<close>
  finds at a path, as libpng decodes it (\<open>None\<close> when it cannot be opened), the bytes
  of the block that \<^verbatim>\<open>malloc (height * stride)\<close> returns, the pixmap id, the error of the
  checked pixmap creation, and the events that \<^verbatim>\<open>xcb_wait_for_event\<close> returns one after
  the other.
\<close>

record png_image =
  png_image_width :: nat
  png_image_height :: nat
  png_rows :: "8 word list list"

record DrawSplash_env =
  settingsRegistry :: "(string \<Rightarrow> string option) option"
  fopen_rb :: "string \<Rightarrow> png_image option"
  malloc_data :: "8 word list"
  generated_pixmap :: xcb_pixmap_t
  create_pixmap_error :: "xcb_generic_error_t option"
  events :: "xcb_generic_event_t list"

definition SplashLogoSetregPath :: string where
  "SplashLogoSetregPath = ''/O3DE/xcb/SplashScreenImagePath''"

definition AssetsSetregPath :: string where
  "AssetsSetregPath = ''/O3DE/Runtime/FilePaths/CacheProjectRootFolder''"

text \<open>
  The two loops of lines 292 to 303 over the pixels of the image: the inner one over
  \<open>x\<close> in row \<open>y\<close>, the outer one over \<open>y\<close>. Three bytes of \<open>data\<close> are written
  for a pixel. Widths, heights and indices are natural numbers: the C code computes
  them in \<^verbatim>\<open>int\<close>, which agrees as long as \<open>width * height * 4\<close> is below \<open>2 ^ 31\<close>.
\<close>

function DrawSplash_row ::
  "nat \<Rightarrow> nat \<Rightarrow> nat \<Rightarrow> 8 word list \<Rightarrow> 8 word list \<Rightarrow> 8 word list" where
  "DrawSplash_row x y width px_row data =
     (if x < width then
        (let pixelIndex = (x + y * width) * 4 in
         DrawSplash_row (x + 1) y width px_row
           (data[pixelIndex + 0 := px_row ! (x * 4 + 2),
                 pixelIndex + 1 := px_row ! (x * 4 + 1),
                 pixelIndex + 2 := px_row ! (x * 4 + 0)]))
      else data)"
  by pat_completeness auto
termination
  by (relation "measure (\<lambda>(x, y, width, px_row, data). width - x)") auto

function DrawSplash_rows ::
  "nat \<Rightarrow> nat \<Rightarrow> nat \<Rightarrow> 8 word list list \<Rightarrow> 8 word list \<Rightarrow> 8 word list" where
  "DrawSplash_rows y height width row_pointers data =
     (if y < height then
        DrawSplash_rows (y + 1) height width row_pointers
          (DrawSplash_row 0 y width (row_pointers ! y) data)
      else data)"
  by pat_completeness auto
termination
  by (relation "measure (\<lambda>(y, height, width, row_pointers, data). height - y)") auto

declare DrawSplash_row.simps [simp del] DrawSplash_rows.simps [simp del]

text \<open>
  The receive loop of lines 322 to 349: every event is dropped until an expose event
  arrives. \<open>None\<close> when the events end without one: the loop then waits forever.
\<close>

fun DrawSplash_wait ::
  "xcb_generic_event_t list \<Rightarrow> xcb_pixmap_t \<Rightarrow> nat \<Rightarrow> nat \<Rightarrow> XcbNativeWindow \<Rightarrow>
     effect list option" where
  "DrawSplash_wait [] pixmap width height w = None"
| "DrawSplash_wait (event # rest) pixmap width height w =
     (if and (response_type event) (not 128) = XCB_EXPOSE then
        (let x = as_expose event in
         Some [XcbWaitForEvent,
               XcbCopyArea pixmap (m_xcbWindow w) (m_xcbGraphicContext w) (ee_x x) (ee_y x)
                 (ucast ((m_width w - of_nat width) div 2))
                 (ucast ((m_height w - of_nat height) div 2))
                 (ee_width x) (ee_height x),
               XcbFlush])
      else
        (case DrawSplash_wait rest pixmap width height w of
           None \<Rightarrow> None
         | Some out \<Rightarrow> Some (XcbWaitForEvent # out)))"

definition DrawSplash :: "DrawSplash_env \<Rightarrow> XcbNativeWindow \<Rightarrow> effect list option" where
  "DrawSplash env w =
     (case settingsRegistry env of
        None \<Rightarrow> Some [Printf ''SplashScreenImagePath not found\<newline>'']
      | Some registry \<Rightarrow>
     (case registry SplashLogoSetregPath of
        None \<Rightarrow> Some [Printf ''SplashScreenImagePath not found\<newline>'']
      | Some splashScreenImagePath \<Rightarrow>
     (case registry AssetsSetregPath of
        None \<Rightarrow> Some [Printf ''Failed to grab cache folder\<newline>'']
      | Some assetCachePath \<Rightarrow>
     (let splashScreenImagePath2 = assetCachePath @ ''/linux/'' @ splashScreenImagePath in
      case fopen_rb env splashScreenImagePath2 of
        None \<Rightarrow> Some [Printf (''Failed to open image '' @ splashScreenImagePath2 @ '' \<newline>'')]
      | Some png \<Rightarrow>
     (let width = png_image_width png;
          height = png_image_height png;
          data = DrawSplash_rows 0 height width (png_rows png) (malloc_data env);
          pixmap = generated_pixmap env;
          o1 = [XcbGenerateId,
                XcbCreatePixmapChecked (root_depth (m_xcbRootScreen w)) pixmap (m_xcbWindow w)
                  (of_nat width) (of_nat height)]
      in case create_pixmap_error env of
           Some e \<Rightarrow>
             Some (o1 @ [PrintfErrorCode (error_code e)])
         | None \<Rightarrow>
             (case DrawSplash_wait (events env) pixmap width height w of
                None \<Rightarrow> None
              | Some o3 \<Rightarrow>
                  Some (o1 @
                        [XcbImagePut pixmap (m_xcbGraphicContext w) (of_nat width)
                           (of_nat height) (of_nat (width * height * 4)) data,
                         XcbFlush] @
                        o3 @ [XcbFreePixmap pixmap])))))))"

text \<open>Activate does not return when DrawSplash does not.\<close>

definition Activate ::
  "DrawSplash_env \<Rightarrow> XcbNativeWindow \<Rightarrow> (XcbNativeWindow \<times> effect list) option" where
  "Activate env w =
     (if \<not> m_activated w then
        (case DrawSplash env w of
           None \<Rightarrow> None
         | Some splash \<Rightarrow>
             Some (w\<lparr>m_activated := True\<rparr>,
                   [BusConnect, XcbMapWindow (m_xcbWindow w), XcbFlush] @ splash))
      else Some (w, [BusConnect]))"

subsection \<open>Concrete inputs\<close>

text \<open>
  A window after InitWindow on a server that interned the thirteen names as the atoms
  300 to 312, and the same window on a connection where interning the state atoms
  failed, so that GetAtom stored \<open>XCB_NONE\<close> for them.
\<close>

definition example_window :: XcbNativeWindow where
  "example_window =
     \<lparr>m_xcbRootScreen = \<lparr>root = 1, root_depth = 24\<rparr>,
      m_xcbWindow = 2,
      m_xcbGraphicContext = 3,
      m_width = 1280,
      m_height = 720,
      m_activated = False,
      m_enableCustomizedResolution = False,
      m_fullscreenState = False,
      m_horizontalyMaximized = False,
      m_verticallyMaximized = False,
      NET_ACTIVE_WINDOW = 300,
      NET_WM_BYPASS_COMPOSITOR = 301,
      WM_PROTOCOLS = 302,
      WM_DELETE_WINDOW = 303,
      NET_WM_PING = 304,
      NET_WM_STATE = 305,
      NET_WM_STATE_FULLSCREEN = 306,
      NET_WM_STATE_MAXIMIZED_VERT = 307,
      NET_WM_STATE_MAXIMIZED_HORZ = 308,
      NET_MOVERESIZE_WINDOW = 309,
      NET_REQUEST_FRAME_EXTENTS = 310,
      NET_FRAME_EXTENTS = 311,
      NET_WM_PID = 312\<rparr>"

definition unresolved_window :: XcbNativeWindow where
  "unresolved_window =
     example_window\<lparr>NET_WM_STATE_FULLSCREEN := XCB_NONE,
                    NET_WM_STATE_MAXIMIZED_VERT := XCB_NONE,
                    NET_WM_STATE_MAXIMIZED_HORZ := XCB_NONE\<rparr>"

text \<open>Property replies: a list of 32-bit atoms, and one that is not.\<close>

definition atoms_reply :: "xcb_atom_t list \<Rightarrow> xcb_get_property_reply_t" where
  "atoms_reply states = \<lparr>gpr_format = 32, gpr_type = XCB_ATOM_ATOM, gpr_value = states\<rparr>"

definition string_reply :: xcb_get_property_reply_t where
  "string_reply = \<lparr>gpr_format = 8, gpr_type = 31, gpr_value = [308]\<rparr>"

text \<open>
  A client message as a window manager sends it with SendEvent: the response type is
  \<open>XCB_CLIENT_MESSAGE\<close> with the bit 0x80 set.
\<close>

definition protocol_message :: "xcb_window_t \<Rightarrow> xcb_atom_t \<Rightarrow> xcb_generic_event_t" where
  "protocol_message window protocolAtom =
     \<lparr>response_type = 161,
      as_configure_notify = \<lparr>cne_response_type = 161, cne_width = 0, cne_height = 0\<rparr>,
      as_client_message =
        \<lparr>cme_response_type = 161, cme_format = 32, cme_sequence = 7, cme_window = window,
         cme_type = 302, cme_data = Data32 protocolAtom 5000 2 0 0\<rparr>,
      as_expose = \<lparr>ee_x = 0, ee_y = 0, ee_width = 0, ee_height = 0\<rparr>\<rparr>"

text \<open>Settings without the splash image path, and an environment built on them.\<close>

definition no_splash_env :: DrawSplash_env where
  "no_splash_env =
     \<lparr>settingsRegistry =
        Some (\<lambda>key. if key = AssetsSetregPath then Some ''/cache'' else None),
      fopen_rb = (\<lambda>path. None),
      malloc_data = [],
      generated_pixmap = 9,
      create_pixmap_error = None,
      events = []\<rparr>"

text \<open>
  A server that interns the thirteen names of InitializeAtoms as the atoms 300 to 312
  and answers no other name.
\<close>

definition example_server :: "string \<Rightarrow> xcb_intern_atom_reply_t option" where
  "example_server name =
     map_of
       [(''_NET_ACTIVE_WINDOW'', \<lparr>atom = 300\<rparr>),
        (''_NET_WM_BYPASS_COMPOSITOR'', \<lparr>atom = 301\<rparr>),
        (''WM_PROTOCOLS'', \<lparr>atom = 302\<rparr>),
        (''WM_DELETE_WINDOW'', \<lparr>atom = 303\<rparr>),
        (''_NET_WM_PING'', \<lparr>atom = 304\<rparr>),
        (''_NET_WM_STATE'', \<lparr>atom = 305\<rparr>),
        (''_NET_WM_STATE_FULLSCREEN'', \<lparr>atom = 306\<rparr>),
        (''_NET_WM_STATE_MAXIMIZED_VERT'', \<lparr>atom = 307\<rparr>),
        (''_NET_WM_STATE_MAXIMIZED_HORZ'', \<lparr>atom = 308\<rparr>),
        (''_NET_MOVERESIZE_WINDOW'', \<lparr>atom = 309\<rparr>),
        (''_NET_REQUEST_FRAME_EXTENTS'', \<lparr>atom = 310\<rparr>),
        (''_NET_FRAME_EXTENTS'', \<lparr>atom = 311\<rparr>),
        (''_NET_WM_PID'', \<lparr>atom = 312\<rparr>)]
       name"

fun is_property_write :: "effect \<Rightarrow> bool" where
  "is_property_write (XcbChangeProperty m win p t f n d) = True"
| "is_property_write (XcbChangePropertyChecked m win p t f n d) = True"
| "is_property_write e = False"

section \<open>Properties\<close>

subsection \<open>WindowSizeChanged\<close>

text \<open>
  C4: when the window is not activated and the new size differs from the stored one,
  WindowSizeChanged stores the new width and height, changes nothing else, and emits no
  effect at all, so no resize and no resolution-changed notification.
\<close>

theorem WindowSizeChanged_deactivated:
  assumes "\<not> m_activated w" and "(width, height) \<noteq> (m_width w, m_height w)"
  shows "WindowSizeChanged width height w = (w\<lparr>m_width := width, m_height := height\<rparr>, [])"
  using assms by (auto simp add: WindowSizeChanged_def)

theorem WindowSizeChanged_deactivated_witness:
  "\<not> m_activated example_window \<and>
   (1920, 1080) \<noteq> (m_width example_window, m_height example_window) \<and>
   WindowSizeChanged 1920 1080 example_window =
     (example_window\<lparr>m_width := 1920, m_height := 1080\<rparr>, [])"
  using WindowSizeChanged_deactivated [of example_window 1920 1080]
  by (simp add: example_window_def)

text \<open>
  C5: a call of WindowSizeChanged with the stored width and height returns the window
  as it was and emits nothing.
\<close>

theorem WindowSizeChanged_same_noop:
  "WindowSizeChanged (m_width w) (m_height w) w = (w, [])"
  by (simp add: WindowSizeChanged_def)

theorem WindowSizeChanged_same_noop_witness:
  "WindowSizeChanged 1280 720 example_window = (example_window, [])"
  using WindowSizeChanged_same_noop [of example_window]
  by (simp add: example_window_def)

subsection \<open>HandleXcbEvent\<close>

text \<open>
  C2: an event whose response type under the mask is \<open>XCB_CLIENT_MESSAGE\<close>, for the
  \<open>WM_PROTOCOLS\<close> atom, of format 32, whose first data word is the delete-window atom,
  handled while the window is activated: the notifications emitted are one
  \<open>OnWindowClosed\<close> and then one \<open>ExitMainLoop\<close>, and the window is no longer
  activated.
\<close>

theorem HandleXcbEvent_delete_window:
  assumes "and (response_type event) s_XcbResponseTypeMask = XCB_CLIENT_MESSAGE"
    and "cme_type (as_client_message event) = WM_PROTOCOLS w"
    and "cme_format (as_client_message event) = 32"
    and "data32_0 (cme_data (as_client_message event)) = WM_DELETE_WINDOW w"
    and "m_activated w"
  shows "filter is_notification (snd (HandleXcbEvent s_XcbResponseTypeMask event w)) =
           [OnWindowClosed (m_xcbWindow w), ExitMainLoop] \<and>
         \<not> m_activated (fst (HandleXcbEvent s_XcbResponseTypeMask event w))"
  using assms
  by (simp add: HandleXcbEvent_def Deactivate_def XCB_CLIENT_MESSAGE_def
      XCB_CONFIGURE_NOTIFY_def s_XcbFormatDataSize_def)

theorem HandleXcbEvent_delete_window_witness:
  "filter is_notification
     (snd (HandleXcbEvent 127 (protocol_message 2 303) (example_window\<lparr>m_activated := True\<rparr>))) =
     [OnWindowClosed 2, ExitMainLoop] \<and>
   \<not> m_activated
     (fst (HandleXcbEvent 127 (protocol_message 2 303) (example_window\<lparr>m_activated := True\<rparr>)))"
  using HandleXcbEvent_delete_window
    [of "protocol_message 2 303" 127 "example_window\<lparr>m_activated := True\<rparr>"]
  by (simp add: protocol_message_def example_window_def XCB_CLIENT_MESSAGE_def)

text \<open>
  C3, as the code has it: a client message for the \<open>WM_PROTOCOLS\<close> atom, of format
  32, whose first data word is the ping atom (and the ping atom is not also the
  delete-window atom, which the code tests first). The window object is returned
  unchanged. When the message's window is not the root window, one event is sent to the
  root window and the connection is flushed: the event is the inbound message with its
  window set to the root window and its response type set to \<open>XCB_CLIENT_MESSAGE\<close>.
  When the message's window is the root window, nothing is sent.
\<close>

theorem HandleXcbEvent_ping:
  assumes "and (response_type event) s_XcbResponseTypeMask = XCB_CLIENT_MESSAGE"
    and "cme_type (as_client_message event) = WM_PROTOCOLS w"
    and "cme_format (as_client_message event) = 32"
    and "data32_0 (cme_data (as_client_message event)) = NET_WM_PING w"
    and "NET_WM_PING w \<noteq> WM_DELETE_WINDOW w"
  shows "HandleXcbEvent s_XcbResponseTypeMask event w =
           (w,
            if cme_window (as_client_message event) \<noteq> root (m_xcbRootScreen w) then
              [XcbSendEvent 0 (root (m_xcbRootScreen w)) XcbRootEventMask
                 ((as_client_message event)
                    \<lparr>cme_response_type := XCB_CLIENT_MESSAGE,
                     cme_window := root (m_xcbRootScreen w)\<rparr>),
               XcbFlush]
            else [])"
  using assms
  by (simp add: HandleXcbEvent_def XCB_CLIENT_MESSAGE_def
      XCB_CONFIGURE_NOTIFY_def s_XcbFormatDataSize_def)

theorem HandleXcbEvent_ping_witness:
  "HandleXcbEvent 127 (protocol_message 2 304) example_window =
     (example_window,
      [XcbSendEvent 0 1 XcbRootEventMask
         \<lparr>cme_response_type = 33, cme_format = 32, cme_sequence = 7, cme_window = 1,
          cme_type = 302, cme_data = Data32 304 5000 2 0 0\<rparr>,
       XcbFlush]) \<and>
   HandleXcbEvent 127 (protocol_message 1 304) example_window = (example_window, [])"
  using HandleXcbEvent_ping [of "protocol_message 2 304" 127 example_window]
    HandleXcbEvent_ping [of "protocol_message 1 304" 127 example_window]
  by (simp add: protocol_message_def example_window_def XCB_CLIENT_MESSAGE_def)

text \<open>
  A ping as a window manager sends it carries the response type 161, the client
  message code with the bit 0x80 set, which the mask 0x7f strips. The reply carries
  33: it is not the inbound message with only the window rewritten.
\<close>

theorem HandleXcbEvent_ping_not_plain_copy:
  "filter is_send_event (snd (HandleXcbEvent 127 (protocol_message 2 304) example_window)) \<noteq>
     [XcbSendEvent 0 (root (m_xcbRootScreen example_window)) XcbRootEventMask
        ((as_client_message (protocol_message 2 304))
           \<lparr>cme_window := root (m_xcbRootScreen example_window)\<rparr>)]"
  by (simp add: HandleXcbEvent_def protocol_message_def example_window_def
      XCB_CLIENT_MESSAGE_def XCB_CONFIGURE_NOTIFY_def s_XcbFormatDataSize_def)

subsection \<open>GetWMStates\<close>

lemma GetWMStates_loop_eq:
  "GetWMStates_loop states w =
     w\<lparr>m_fullscreenState := m_fullscreenState w \<or> NET_WM_STATE_FULLSCREEN w \<in> set states,
       m_horizontalyMaximized := m_horizontalyMaximized w \<or>
         (NET_WM_STATE_MAXIMIZED_HORZ w \<in> set states \<and>
          NET_WM_STATE_MAXIMIZED_HORZ w \<noteq> NET_WM_STATE_FULLSCREEN w),
       m_verticallyMaximized := m_verticallyMaximized w \<or>
         (NET_WM_STATE_MAXIMIZED_VERT w \<in> set states \<and>
          NET_WM_STATE_MAXIMIZED_VERT w \<noteq> NET_WM_STATE_FULLSCREEN w \<and>
          NET_WM_STATE_MAXIMIZED_VERT w \<noteq> NET_WM_STATE_MAXIMIZED_HORZ w)\<rparr>"
proof (induction states arbitrary: w)
  case Nil
  show ?case by simp
next
  case (Cons s states)
  show ?case
    by (simp add: Cons.IH) (auto intro!: XcbNativeWindow.equality)
qed

lemma GetWMStates_failed_eq:
  assumes "xkbGetPropertyReply = None \<or> error \<noteq> None \<or>
           (\<exists>r. xkbGetPropertyReply = Some r \<and> (gpr_format r \<noteq> 32 \<or> gpr_type r \<noteq> XCB_ATOM_ATOM))"
  shows "fst (GetWMStates xkbGetPropertyReply error w) = w"
  using assms by (auto simp add: GetWMStates_def Let_def split: option.splits)

lemma GetWMStates_succeeded_eq:
  assumes "gpr_format r = 32" and "gpr_type r = XCB_ATOM_ATOM"
  shows "fst (GetWMStates (Some r) None w) =
     w\<lparr>m_fullscreenState := NET_WM_STATE_FULLSCREEN w \<in> set (gpr_value r),
       m_horizontalyMaximized :=
         (NET_WM_STATE_MAXIMIZED_HORZ w \<in> set (gpr_value r) \<and>
          NET_WM_STATE_MAXIMIZED_HORZ w \<noteq> NET_WM_STATE_FULLSCREEN w),
       m_verticallyMaximized :=
         (NET_WM_STATE_MAXIMIZED_VERT w \<in> set (gpr_value r) \<and>
          NET_WM_STATE_MAXIMIZED_VERT w \<noteq> NET_WM_STATE_FULLSCREEN w \<and>
          NET_WM_STATE_MAXIMIZED_VERT w \<noteq> NET_WM_STATE_MAXIMIZED_HORZ w)\<rparr>"
  using assms by (simp add: GetWMStates_def Let_def GetWMStates_loop_eq)

lemma GetWMStates_frame:
  "m_xcbWindow (fst (GetWMStates reply error w)) = m_xcbWindow w"
  "m_xcbRootScreen (fst (GetWMStates reply error w)) = m_xcbRootScreen w"
  "NET_WM_BYPASS_COMPOSITOR (fst (GetWMStates reply error w)) = NET_WM_BYPASS_COMPOSITOR w"
  "NET_WM_STATE (fst (GetWMStates reply error w)) = NET_WM_STATE w"
  "NET_WM_STATE_FULLSCREEN (fst (GetWMStates reply error w)) = NET_WM_STATE_FULLSCREEN w"
  "NET_WM_STATE_MAXIMIZED_VERT (fst (GetWMStates reply error w)) = NET_WM_STATE_MAXIMIZED_VERT w"
  "NET_WM_STATE_MAXIMIZED_HORZ (fst (GetWMStates reply error w)) = NET_WM_STATE_MAXIMIZED_HORZ w"
  by (simp_all add: GetWMStates_def Let_def GetWMStates_loop_eq split: option.splits)

lemma GetWMStates_no_writes:
  "filter is_property_write (snd (GetWMStates reply error w)) = []"
  "filter is_send_event (snd (GetWMStates reply error w)) = []"
  by (simp_all add: GetWMStates_def Let_def split: option.splits)

text \<open>
  With three pairwise distinct state atoms, a successful query sets each flag to
  whether its atom is in the list.
\<close>

lemma GetWMStates_distinct_atoms:
  assumes "gpr_format r = 32" and "gpr_type r = XCB_ATOM_ATOM"
    and "distinct [NET_WM_STATE_FULLSCREEN w, NET_WM_STATE_MAXIMIZED_HORZ w,
                   NET_WM_STATE_MAXIMIZED_VERT w]"
  shows "fst (GetWMStates (Some r) None w) =
     w\<lparr>m_fullscreenState := NET_WM_STATE_FULLSCREEN w \<in> set (gpr_value r),
       m_horizontalyMaximized := NET_WM_STATE_MAXIMIZED_HORZ w \<in> set (gpr_value r),
       m_verticallyMaximized := NET_WM_STATE_MAXIMIZED_VERT w \<in> set (gpr_value r)\<rparr>"
proof -
  from assms(3)
  have "NET_WM_STATE_MAXIMIZED_HORZ w \<noteq> NET_WM_STATE_FULLSCREEN w"
    and "NET_WM_STATE_MAXIMIZED_VERT w \<noteq> NET_WM_STATE_FULLSCREEN w"
    and "NET_WM_STATE_MAXIMIZED_VERT w \<noteq> NET_WM_STATE_MAXIMIZED_HORZ w"
    by auto
  with assms(1,2) show ?thesis
    by (simp add: GetWMStates_succeeded_eq)
qed

text \<open>
  C6, as the code has it. When the query fails (no reply, an error, or a reply whose
  format is not 32 or whose type is not \<open>ATOM\<close>) the window object is returned unchanged,
  so the three flags keep their values. When it succeeds, the fullscreen flag is true
  exactly when the fullscreen atom is in the list; the maximized-horizontal flag is
  true exactly when its atom is in the list and is not also the fullscreen atom; the
  maximized-vertical flag is true exactly when its atom is in the list and is neither
  of the other two. For three pairwise distinct atoms each flag is true exactly when
  its atom is in the list.
\<close>

theorem GetWMStates_flags:
  "((xkbGetPropertyReply = None \<or> error \<noteq> None \<or>
     (\<exists>r. xkbGetPropertyReply = Some r \<and>
          (gpr_format r \<noteq> 32 \<or> gpr_type r \<noteq> XCB_ATOM_ATOM))) \<longrightarrow>
    fst (GetWMStates xkbGetPropertyReply error w) = w) \<and>
   (gpr_format r = 32 \<and> gpr_type r = XCB_ATOM_ATOM \<longrightarrow>
    (m_fullscreenState (fst (GetWMStates (Some r) None w)) \<longleftrightarrow>
       NET_WM_STATE_FULLSCREEN w \<in> set (gpr_value r)) \<and>
    (m_horizontalyMaximized (fst (GetWMStates (Some r) None w)) \<longleftrightarrow>
       NET_WM_STATE_MAXIMIZED_HORZ w \<in> set (gpr_value r) \<and>
       NET_WM_STATE_MAXIMIZED_HORZ w \<noteq> NET_WM_STATE_FULLSCREEN w) \<and>
    (m_verticallyMaximized (fst (GetWMStates (Some r) None w)) \<longleftrightarrow>
       NET_WM_STATE_MAXIMIZED_VERT w \<in> set (gpr_value r) \<and>
       NET_WM_STATE_MAXIMIZED_VERT w \<noteq> NET_WM_STATE_FULLSCREEN w \<and>
       NET_WM_STATE_MAXIMIZED_VERT w \<noteq> NET_WM_STATE_MAXIMIZED_HORZ w))"
proof (intro conjI impI)
  assume "xkbGetPropertyReply = None \<or> error \<noteq> None \<or>
     (\<exists>r. xkbGetPropertyReply = Some r \<and> (gpr_format r \<noteq> 32 \<or> gpr_type r \<noteq> XCB_ATOM_ATOM))"
  then show "fst (GetWMStates xkbGetPropertyReply error w) = w"
    by (rule GetWMStates_failed_eq)
next
  assume ok: "gpr_format r = 32 \<and> gpr_type r = XCB_ATOM_ATOM"
  then show "m_fullscreenState (fst (GetWMStates (Some r) None w)) \<longleftrightarrow>
       NET_WM_STATE_FULLSCREEN w \<in> set (gpr_value r)"
    by (simp add: GetWMStates_succeeded_eq)
  from ok show "m_horizontalyMaximized (fst (GetWMStates (Some r) None w)) \<longleftrightarrow>
       NET_WM_STATE_MAXIMIZED_HORZ w \<in> set (gpr_value r) \<and>
       NET_WM_STATE_MAXIMIZED_HORZ w \<noteq> NET_WM_STATE_FULLSCREEN w"
    by (simp add: GetWMStates_succeeded_eq)
  from ok show "m_verticallyMaximized (fst (GetWMStates (Some r) None w)) \<longleftrightarrow>
       NET_WM_STATE_MAXIMIZED_VERT w \<in> set (gpr_value r) \<and>
       NET_WM_STATE_MAXIMIZED_VERT w \<noteq> NET_WM_STATE_FULLSCREEN w \<and>
       NET_WM_STATE_MAXIMIZED_VERT w \<noteq> NET_WM_STATE_MAXIMIZED_HORZ w"
    by (simp add: GetWMStates_succeeded_eq)
qed

theorem GetWMStates_flags_witness:
  "fst (GetWMStates (Some string_reply) None (example_window\<lparr>m_horizontalyMaximized := True\<rparr>)) =
     example_window\<lparr>m_horizontalyMaximized := True\<rparr> \<and>
   \<not> m_fullscreenState (fst (GetWMStates (Some (atoms_reply [308])) None example_window)) \<and>
   m_horizontalyMaximized (fst (GetWMStates (Some (atoms_reply [308])) None example_window)) \<and>
   \<not> m_verticallyMaximized (fst (GetWMStates (Some (atoms_reply [308])) None example_window))"
  using GetWMStates_flags
      [of "Some string_reply" None "example_window\<lparr>m_horizontalyMaximized := True\<rparr>"
          "atoms_reply [308]"]
    GetWMStates_flags [of None None example_window "atoms_reply [308]"]
  by (simp add: string_reply_def atoms_reply_def example_window_def XCB_ATOM_ATOM_def)

text \<open>
  On a window whose state atoms were not interned, all three are \<open>XCB_NONE\<close>. A reply
  that lists \<open>XCB_NONE\<close> then holds the maximized-horizontal atom, and the flag stays
  false: the entry is taken by the fullscreen test, which comes first.
\<close>

theorem GetWMStates_shadowed_atom:
  "NET_WM_STATE_MAXIMIZED_HORZ unresolved_window \<in> set (gpr_value (atoms_reply [XCB_NONE])) \<and>
   \<not> m_horizontalyMaximized
       (fst (GetWMStates (Some (atoms_reply [XCB_NONE])) None unresolved_window))"
  by (simp add: GetWMStates_def Let_def atoms_reply_def unresolved_window_def
      example_window_def)

subsection \<open>SetFullScreenState\<close>

lemma SetFullScreenState_effects:
  "snd (SetFullScreenState fullScreenState reply error xkbError w0) =
     snd (GetWMStates reply error w0) @
     [XcbSendEvent 1 (root (m_xcbRootScreen w0)) XcbRootEventMask
        \<lparr>cme_response_type = XCB_CLIENT_MESSAGE, cme_format = 32, cme_sequence = 0,
         cme_window = m_xcbWindow w0, cme_type = NET_WM_STATE w0,
         cme_data = Data32
           (if fullScreenState then NET_WM_STATE_ADD else NET_WM_STATE_REMOVE)
           (NET_WM_STATE_FULLSCREEN w0) 0 1 0\<rparr>,
      XcbChangePropertyChecked XCB_PROP_MODE_REPLACE (m_xcbWindow w0)
        (NET_WM_BYPASS_COMPOSITOR w0) XCB_ATOM_CARDINAL 32 32
        (LongAt (if m_fullscreenState (fst (GetWMStates reply error w0)) then 1 else 0))] @
     (if \<not> fullScreenState \<and>
         (m_horizontalyMaximized (fst (GetWMStates reply error w0)) \<or>
          m_verticallyMaximized (fst (GetWMStates reply error w0)))
      then [Printf ''Remove maximized state.\<newline>'',
            XcbSendEvent 1 (root (m_xcbRootScreen w0)) XcbRootEventMask
              \<lparr>cme_response_type = XCB_CLIENT_MESSAGE, cme_format = 32, cme_sequence = 0,
               cme_window = m_xcbWindow w0, cme_type = NET_WM_STATE w0,
               cme_data = Data32 (NET_WM_STATE_MAXIMIZED_VERT w0)
                 (NET_WM_STATE_MAXIMIZED_HORZ w0) 0 0 0\<rparr>]
      else []) @
     [XcbFlush]"
  by (simp add: SetFullScreenState_def SetAtom_def Let_def case_prod_beta GetWMStates_frame)

lemma SetFullScreenState_state:
  "fst (SetFullScreenState fullScreenState reply error xkbError w0) =
     (fst (GetWMStates reply error w0))\<lparr>m_fullscreenState := fullScreenState\<rparr>"
  by (simp add: SetFullScreenState_def SetAtom_def Let_def case_prod_beta)

lemma SetFullScreenState_send_events:
  "filter is_send_event (snd (SetFullScreenState fullScreenState reply error xkbError w0)) =
     XcbSendEvent 1 (root (m_xcbRootScreen w0)) XcbRootEventMask
        \<lparr>cme_response_type = XCB_CLIENT_MESSAGE, cme_format = 32, cme_sequence = 0,
         cme_window = m_xcbWindow w0, cme_type = NET_WM_STATE w0,
         cme_data = Data32
           (if fullScreenState then NET_WM_STATE_ADD else NET_WM_STATE_REMOVE)
           (NET_WM_STATE_FULLSCREEN w0) 0 1 0\<rparr> #
     (if \<not> fullScreenState \<and>
         (m_horizontalyMaximized (fst (GetWMStates reply error w0)) \<or>
          m_verticallyMaximized (fst (GetWMStates reply error w0)))
      then [XcbSendEvent 1 (root (m_xcbRootScreen w0)) XcbRootEventMask
              \<lparr>cme_response_type = XCB_CLIENT_MESSAGE, cme_format = 32, cme_sequence = 0,
               cme_window = m_xcbWindow w0, cme_type = NET_WM_STATE w0,
               cme_data = Data32 (NET_WM_STATE_MAXIMIZED_VERT w0)
                 (NET_WM_STATE_MAXIMIZED_HORZ w0) 0 0 0\<rparr>]
      else [])"
  by (simp add: SetFullScreenState_effects GetWMStates_no_writes)

text \<open>
  C1. SetFullScreenState with target false, on a window whose maximized-horizontal flag
  is true after the refresh, sends two client messages to the root window. The second
  one is the maximize removal. By the convention of the first message its words would be
  \<open>[NET_WM_STATE_REMOVE, atom, atom, source, 0]\<close>; the code puts the two maximize atoms
  in words 0 and 1 and zero in the rest, so no word holds the action.
\<close>

theorem SetFullScreenState_maximize_message_words:
  "filter is_send_event
     (snd (SetFullScreenState False (Some (atoms_reply [308])) None None example_window)) =
     [XcbSendEvent 1 1 XcbRootEventMask
        \<lparr>cme_response_type = 33, cme_format = 32, cme_sequence = 0, cme_window = 2,
         cme_type = 305, cme_data = Data32 NET_WM_STATE_REMOVE 306 0 1 0\<rparr>,
      XcbSendEvent 1 1 XcbRootEventMask
        \<lparr>cme_response_type = 33, cme_format = 32, cme_sequence = 0, cme_window = 2,
         cme_type = 305, cme_data = Data32 307 308 0 0 0\<rparr>] \<and>
   NET_WM_STATE_MAXIMIZED_VERT example_window = 307 \<and>
   NET_WM_STATE_MAXIMIZED_HORZ example_window = 308 \<and>
   data32_0 (Data32 307 308 0 0 0) \<noteq> NET_WM_STATE_REMOVE \<and>
   data32_2 (Data32 307 308 0 0 0) \<noteq> NET_WM_STATE_MAXIMIZED_HORZ example_window \<and>
   data32_2 (Data32 307 308 0 0 0) \<noteq> NET_WM_STATE_MAXIMIZED_VERT example_window"
  by (simp add: SetFullScreenState_effects GetWMStates_def Let_def atoms_reply_def
      example_window_def XCB_CLIENT_MESSAGE_def XCB_ATOM_ATOM_def NET_WM_STATE_REMOVE_def)

text \<open>
  C10: the only property write of SetFullScreenState is the compositor-bypass hint, and
  the \<^verbatim>\<open>long\<close> it points at is 1 when the fullscreen flag is true after the refresh by
  GetWMStates and 0 otherwise, whatever the target; the fullscreen flag of the returned
  window is the target.
\<close>

theorem SetFullScreenState_bypass_hint:
  "filter is_property_write
     (snd (SetFullScreenState fullScreenState reply error xkbError w0)) =
     [XcbChangePropertyChecked XCB_PROP_MODE_REPLACE (m_xcbWindow w0)
        (NET_WM_BYPASS_COMPOSITOR w0) XCB_ATOM_CARDINAL 32 32
        (LongAt (if m_fullscreenState (fst (GetWMStates reply error w0)) then 1 else 0))] \<and>
   m_fullscreenState (fst (SetFullScreenState fullScreenState reply error xkbError w0)) =
     fullScreenState"
  by (simp add: SetFullScreenState_effects SetFullScreenState_state GetWMStates_no_writes)

theorem SetFullScreenState_bypass_hint_witness:
  "filter is_property_write
     (snd (SetFullScreenState True (Some (atoms_reply [308])) None None example_window)) =
     [XcbChangePropertyChecked 0 2 301 6 32 32 (LongAt 0)] \<and>
   m_fullscreenState
     (fst (SetFullScreenState True (Some (atoms_reply [308])) None None example_window)) \<and>
   filter is_property_write
     (snd (SetFullScreenState False (Some (atoms_reply [306])) None None example_window)) =
     [XcbChangePropertyChecked 0 2 301 6 32 32 (LongAt 1)] \<and>
   \<not> m_fullscreenState
     (fst (SetFullScreenState False (Some (atoms_reply [306])) None None example_window))"
  using SetFullScreenState_bypass_hint
      [of True "Some (atoms_reply [308])" None None example_window]
    SetFullScreenState_bypass_hint
      [of False "Some (atoms_reply [306])" None None example_window]
  by (simp add: GetWMStates_def Let_def atoms_reply_def example_window_def
      XCB_PROP_MODE_REPLACE_def XCB_ATOM_CARDINAL_def XCB_ATOM_ATOM_def)

subsection \<open>DrawSplash and Activate\<close>

lemma DrawSplash_no_settings:
  assumes "settingsRegistry env = None \<or>
           (\<exists>registry. settingsRegistry env = Some registry \<and>
              (registry SplashLogoSetregPath = None \<or> registry AssetsSetregPath = None))"
  shows "\<exists>splash. DrawSplash env w = Some splash \<and> filter is_server_request splash = []"
  using assms by (auto simp add: DrawSplash_def split: option.splits)

lemma DrawSplash_row_length:
  "length (DrawSplash_row x y width px_row data) = length data"
proof (induction x y width px_row data rule: DrawSplash_row.induct)
  case (1 x y width px_row data)
  show ?case
  proof (cases "x < width")
    case True
    with "1.IH" [OF True refl] show ?thesis
      by (subst DrawSplash_row.simps) (simp add: Let_def)
  next
    case False
    then show ?thesis
      by (subst DrawSplash_row.simps) simp
  qed
qed

lemma DrawSplash_row_nth:
  assumes "(y * width + width) * 4 \<le> length data"
  shows "DrawSplash_row x y width px_row data ! j =
           (if j mod 4 < 3 \<and> y * width + x \<le> j div 4 \<and> j div 4 < y * width + width
            then px_row ! ((j div 4 - y * width) * 4 + (2 - j mod 4))
            else data ! j)"
  using assms
proof (induction x y width px_row data rule: DrawSplash_row.induct)
  case (1 x y width px_row data)
  define k where "k = y * width"
  define q where "q = j div 4"
  define c where "c = j mod 4"
  have j: "j = 4 * q + c" and c: "c < 4"
    by (simp_all add: q_def c_def)
  show ?case
  proof (cases "x < width")
    case False
    then show ?thesis
      by (subst DrawSplash_row.simps) auto
  next
    case True
    define i where "i = (x + k) * 4"
    define data' where
      "data' = data[i + 0 := px_row ! (x * 4 + 2), i + 1 := px_row ! (x * 4 + 1),
                    i + 2 := px_row ! (x * 4 + 0)]"
    have step: "DrawSplash_row x y width px_row data =
                  DrawSplash_row (x + 1) y width px_row data'"
      by (subst DrawSplash_row.simps) (simp add: True Let_def data'_def i_def k_def)
    have len: "(y * width + width) * 4 \<le> length data'"
      using "1.prems" by (simp add: data'_def)
    have IH: "DrawSplash_row (x + 1) y width px_row data' ! j =
           (if c < 3 \<and> k + (x + 1) \<le> q \<and> q < k + width
            then px_row ! ((q - k) * 4 + (2 - c))
            else data' ! j)"
      using "1.IH" [OF True refl] len
      by (simp add: data'_def i_def k_def q_def c_def)
    have inr: "i + 2 < length data"
      using True "1.prems" by (simp add: i_def k_def)
    have nth': "data' ! j =
        (if j = i + 2 then px_row ! (x * 4)
         else if j = i + 1 then px_row ! (x * 4 + 1)
         else if j = i then px_row ! (x * 4 + 2)
         else data ! j)"
      using inr by (simp add: data'_def nth_list_update)
    have goal: "(if c < 3 \<and> k + (x + 1) \<le> q \<and> q < k + width
            then px_row ! ((q - k) * 4 + (2 - c))
            else data' ! j) =
          (if c < 3 \<and> k + x \<le> q \<and> q < k + width
            then px_row ! ((q - k) * 4 + (2 - c))
            else data ! j)"
    proof (cases "q = k + x")
      case here: True
      have ji: "j = i + c"
        by (simp add: j here i_def)
      have d: "data' ! j =
          (if c = 2 then px_row ! (x * 4)
           else if c = 1 then px_row ! (x * 4 + 1)
           else if c = 0 then px_row ! (x * 4 + 2)
           else data ! j)"
        unfolding nth' by (simp add: ji)
      have "c = 0 \<or> c = 1 \<or> c = 2 \<or> c = 3" using c by arith
      then show ?thesis
        using here True by (auto simp add: d)
    next
      case False
      then have "j \<noteq> i + 2" "j \<noteq> i + 1" "j \<noteq> i"
        using c by (auto simp add: j i_def)
      with False show ?thesis
        by (auto simp add: nth')
    qed
    show ?thesis
      unfolding step IH using goal by (simp add: k_def q_def c_def)
  qed
qed

lemma DrawSplash_rows_nth:
  assumes "height * width * 4 \<le> length data"
  shows "DrawSplash_rows y height width row_pointers data ! j =
           (if j mod 4 < 3 \<and> y * width \<le> j div 4 \<and> j div 4 < height * width
            then row_pointers ! (j div 4 div width) !
                   ((j div 4 mod width) * 4 + (2 - j mod 4))
            else data ! j)"
  using assms
proof (induction y height width row_pointers data rule: DrawSplash_rows.induct)
  case (1 y height width row_pointers data)
  define q where "q = j div 4"
  define c where "c = j mod 4"
  show ?case
  proof (cases "y < height")
    case False
    then have "height * width \<le> y * width"
      by (intro mult_le_mono1) simp
    then have "\<not> (y * width \<le> j div 4 \<and> j div 4 < height * width)"
      by linarith
    with False show ?thesis
      by (subst DrawSplash_rows.simps) auto
  next
    case True
    define data' where "data' = DrawSplash_row 0 y width (row_pointers ! y) data"
    have step: "DrawSplash_rows y height width row_pointers data =
                  DrawSplash_rows (y + 1) height width row_pointers data'"
      by (subst DrawSplash_rows.simps) (simp add: True data'_def)
    have below: "y * width + width \<le> height * width"
    proof -
      have "Suc y * width \<le> height * width"
        using True by (intro mult_le_mono1) simp
      then show ?thesis by (simp add: add.commute)
    qed
    have len: "height * width * 4 \<le> length data'"
      using "1.prems" by (simp add: data'_def DrawSplash_row_length)
    have IH: "DrawSplash_rows (y + 1) height width row_pointers data' ! j =
           (if c < 3 \<and> y * width + width \<le> q \<and> q < height * width
            then row_pointers ! (q div width) ! ((q mod width) * 4 + (2 - c))
            else data' ! j)"
      using "1.IH" [OF True] len by (simp add: data'_def q_def c_def add.commute)
    have row: "data' ! j =
           (if c < 3 \<and> y * width \<le> q \<and> q < y * width + width
            then row_pointers ! y ! ((q - y * width) * 4 + (2 - c))
            else data ! j)"
      unfolding data'_def q_def c_def
      using DrawSplash_row_nth [of y width data 0 "row_pointers ! y" j] below "1.prems"
      by simp
    have inrow: "q div width = y \<and> q mod width = q - y * width"
      if "y * width \<le> q" and "q < y * width + width"
    proof -
      have "q div width = y"
        using that by (intro div_nat_eqI) (simp_all add: mult.commute)
      moreover have "q mod width = q - (q div width) * width"
        by (simp add: minus_div_mult_eq_mod)
      ultimately show ?thesis by simp
    qed
    have "(if c < 3 \<and> y * width + width \<le> q \<and> q < height * width
            then row_pointers ! (q div width) ! ((q mod width) * 4 + (2 - c))
            else data' ! j) =
          (if c < 3 \<and> y * width \<le> q \<and> q < height * width
            then row_pointers ! (q div width) ! ((q mod width) * 4 + (2 - c))
            else data ! j)"
      using below inrow by (auto simp add: row)
    then show ?thesis
      unfolding step IH by (simp add: q_def c_def)
  qed
qed

text \<open>
  When DrawSplash gets as far as the image, the raster it puts into the pixmap is the
  one the two loops compose over the block that \<^verbatim>\<open>malloc\<close> returned.
\<close>

lemma DrawSplash_puts_composed_raster:
  assumes "settingsRegistry env = Some registry"
    and "registry SplashLogoSetregPath = Some splashScreenImagePath"
    and "registry AssetsSetregPath = Some assetCachePath"
    and "fopen_rb env (assetCachePath @ ''/linux/'' @ splashScreenImagePath) = Some png"
    and "create_pixmap_error env = None"
    and "DrawSplash env w = Some out"
  shows "XcbImagePut (generated_pixmap env) (m_xcbGraphicContext w)
           (of_nat (png_image_width png)) (of_nat (png_image_height png))
           (of_nat (png_image_width png * png_image_height png * 4))
           (DrawSplash_rows 0 (png_image_height png) (png_image_width png) (png_rows png)
              (malloc_data env)) \<in> set out"
  using assms by (auto simp add: DrawSplash_def Let_def split: option.splits)

text \<open>The receive loop returns as soon as the events hold an expose event.\<close>

lemma DrawSplash_wait_returns:
  assumes "\<exists>event \<in> set evs. and (response_type event) (not 128) = XCB_EXPOSE"
  shows "\<exists>out. DrawSplash_wait evs pixmap width height w = Some out"
proof -
  have "(\<exists>event \<in> set evs. and (response_type event) (not 128) = XCB_EXPOSE) \<longrightarrow>
        (\<exists>out. DrawSplash_wait evs pixmap width height w = Some out)"
    by (induction evs) (auto simp add: Let_def)
  with assms show ?thesis by blast
qed

text \<open>
  C9, as the code has it. For a pixel \<open>(x, y)\<close> of an image of \<open>height\<close> rows of at
  least \<open>4 * width\<close> bytes each, composed into a block of \<open>height * width * 4\<close> bytes:
  at offset \<open>(x + y * width) * 4\<close> byte 0 is the source pixel's byte 2, byte 1 its byte
  1 and byte 2 its byte 0. Byte 3 is not written: it is what the block held there
  when \<^verbatim>\<open>malloc\<close> returned it.
\<close>

theorem DrawSplash_rows_pixel:
  assumes "x < width" and "y < height"
    and "length data = height * width * 4"
    and "length row_pointers = height"
    and "\<forall>px_row \<in> set row_pointers. width * 4 \<le> length px_row"
    and "height * width * 4 < 2 ^ 31"
  shows "DrawSplash_rows 0 height width row_pointers data ! ((x + y * width) * 4 + 0) =
           row_pointers ! y ! (x * 4 + 2) \<and>
         DrawSplash_rows 0 height width row_pointers data ! ((x + y * width) * 4 + 1) =
           row_pointers ! y ! (x * 4 + 1) \<and>
         DrawSplash_rows 0 height width row_pointers data ! ((x + y * width) * 4 + 2) =
           row_pointers ! y ! (x * 4 + 0) \<and>
         DrawSplash_rows 0 height width row_pointers data ! ((x + y * width) * 4 + 3) =
           data ! ((x + y * width) * 4 + 3)"
proof -
  have len: "height * width * 4 \<le> length data"
    using assms(3) by simp
  have inside: "x + y * width < height * width"
  proof -
    have "Suc y * width \<le> height * width"
      using assms(2) by (intro mult_le_mono1) simp
    with assms(1) show ?thesis by simp
  qed
  have dm: "(x + y * width) div width = y" "(x + y * width) mod width = x"
    using assms(1) by simp_all
  have "(a * 4 + c) div 4 = a \<and> (a * 4 + c) mod 4 = c" if "c < 4" for a c :: nat
    using that by simp
  then have pos: "((x + y * width) * 4 + c) div 4 = x + y * width"
            "((x + y * width) * 4 + c) mod 4 = c" if "c < 4" for c
    using that by blast+
  show ?thesis
    using inside dm pos [of 0] pos [of 1] pos [of 2] pos [of 3]
    by (simp add: DrawSplash_rows_nth [OF len])
qed

theorem DrawSplash_rows_pixel_witness:
  "DrawSplash_rows 0 1 1 [[10, 20, 30, 255]] [7, 7, 7, 7] ! ((0 + 0 * 1) * 4 + 0) = 30 \<and>
   DrawSplash_rows 0 1 1 [[10, 20, 30, 255]] [7, 7, 7, 7] ! ((0 + 0 * 1) * 4 + 1) = 20 \<and>
   DrawSplash_rows 0 1 1 [[10, 20, 30, 255]] [7, 7, 7, 7] ! ((0 + 0 * 1) * 4 + 2) = 10 \<and>
   DrawSplash_rows 0 1 1 [[10, 20, 30, 255]] [7, 7, 7, 7] ! ((0 + 0 * 1) * 4 + 3) = 7"
  using DrawSplash_rows_pixel [of 0 1 0 1 "[7, 7, 7, 7]" "[[10, 20, 30, 255]]"]
  by simp

text \<open>
  A block that \<^verbatim>\<open>malloc\<close> returns need not be zeroed. On a one-pixel image composed
  into a block of four bytes 7, the alpha byte of the raster is 7.
\<close>

theorem DrawSplash_rows_alpha_not_zero:
  "DrawSplash_rows 0 1 1 [[10, 20, 30, 255]] [7, 7, 7, 7] = [30, 20, 10, 7] \<and>
   DrawSplash_rows 0 1 1 [[10, 20, 30, 255]] [7, 7, 7, 7] ! ((0 + 0 * 1) * 4 + 3) \<noteq> 0"
  by (simp add: DrawSplash_rows.simps DrawSplash_row.simps Let_def)

text \<open>
  C7: Activate on a window that is not activated, with settings that lack one of the two
  splash strings (or with no settings registry): DrawSplash returns, none of its effects
  is a server request, and Activate returns the window with the activated flag set,
  after mapping the window and flushing.
\<close>

theorem Activate_without_splash_settings:
  assumes "\<not> m_activated w"
    and "settingsRegistry env = None \<or>
         (\<exists>registry. settingsRegistry env = Some registry \<and>
            (registry SplashLogoSetregPath = None \<or> registry AssetsSetregPath = None))"
  shows "\<exists>splash. DrawSplash env w = Some splash \<and>
           filter is_server_request splash = [] \<and>
           Activate env w =
             Some (w\<lparr>m_activated := True\<rparr>,
                   [BusConnect, XcbMapWindow (m_xcbWindow w), XcbFlush] @ splash)"
proof -
  from assms(2) obtain splash
    where splash: "DrawSplash env w = Some splash" "filter is_server_request splash = []"
    using DrawSplash_no_settings by blast
  from assms(1) splash(1)
  have "Activate env w =
          Some (w\<lparr>m_activated := True\<rparr>,
                [BusConnect, XcbMapWindow (m_xcbWindow w), XcbFlush] @ splash)"
    by (simp add: Activate_def)
  with splash show ?thesis by blast
qed

theorem Activate_without_splash_settings_witness:
  "\<not> m_activated example_window \<and>
   (\<exists>splash. DrawSplash no_splash_env example_window = Some splash \<and>
      filter is_server_request splash = [] \<and>
      Activate no_splash_env example_window =
        Some (example_window\<lparr>m_activated := True\<rparr>,
              [BusConnect, XcbMapWindow (m_xcbWindow example_window), XcbFlush] @ splash))"
proof -
  have a: "\<not> m_activated example_window"
    by (simp add: example_window_def)
  have b: "settingsRegistry no_splash_env = None \<or>
         (\<exists>registry. settingsRegistry no_splash_env = Some registry \<and>
            (registry SplashLogoSetregPath = None \<or> registry AssetsSetregPath = None))"
    by (simp add: no_splash_env_def SplashLogoSetregPath_def AssetsSetregPath_def)
  show ?thesis
    using a Activate_without_splash_settings [OF a b] by simp
qed

subsection \<open>GetAtom and InitializeAtoms\<close>

lemma interned_names_append:
  "interned_names (xs @ ys) = interned_names xs @ interned_names ys"
  by (induction xs rule: interned_names.induct) simp_all

lemma interned_names_GetAtom:
  "interned_names (snd (GetAtom atomName reply)) = [atomName]"
  by (simp add: GetAtom_def split: option.splits)

lemma interned_names_InitializeAtoms:
  "interned_names (snd (InitializeAtoms server w)) =
     [''_NET_ACTIVE_WINDOW'', ''_NET_WM_BYPASS_COMPOSITOR'', ''WM_PROTOCOLS'',
      ''WM_DELETE_WINDOW'', ''_NET_WM_PING'', ''_NET_WM_STATE'', ''_NET_WM_STATE_FULLSCREEN'',
      ''_NET_WM_STATE_MAXIMIZED_VERT'', ''_NET_WM_STATE_MAXIMIZED_HORZ'',
      ''_NET_MOVERESIZE_WINDOW'', ''_NET_REQUEST_FRAME_EXTENTS'', ''_NET_FRAME_EXTENTS'',
      ''_NET_WM_PID'']"
  by (simp add: InitializeAtoms_def Let_def case_prod_beta interned_names_append
      interned_names_GetAtom)

text \<open>
  InitializeAtoms changes the thirteen atom fields of the window and nothing else: each
  field holds what GetAtom returned for its name.
\<close>

lemma InitializeAtoms_window:
  "fst (InitializeAtoms server w) =
     w\<lparr>NET_ACTIVE_WINDOW := fst (GetAtom ''_NET_ACTIVE_WINDOW'' (server ''_NET_ACTIVE_WINDOW'')),
       NET_WM_BYPASS_COMPOSITOR :=
         fst (GetAtom ''_NET_WM_BYPASS_COMPOSITOR'' (server ''_NET_WM_BYPASS_COMPOSITOR'')),
       WM_PROTOCOLS := fst (GetAtom ''WM_PROTOCOLS'' (server ''WM_PROTOCOLS'')),
       WM_DELETE_WINDOW := fst (GetAtom ''WM_DELETE_WINDOW'' (server ''WM_DELETE_WINDOW'')),
       NET_WM_PING := fst (GetAtom ''_NET_WM_PING'' (server ''_NET_WM_PING'')),
       NET_WM_STATE := fst (GetAtom ''_NET_WM_STATE'' (server ''_NET_WM_STATE'')),
       NET_WM_STATE_FULLSCREEN :=
         fst (GetAtom ''_NET_WM_STATE_FULLSCREEN'' (server ''_NET_WM_STATE_FULLSCREEN'')),
       NET_WM_STATE_MAXIMIZED_VERT :=
         fst (GetAtom ''_NET_WM_STATE_MAXIMIZED_VERT'' (server ''_NET_WM_STATE_MAXIMIZED_VERT'')),
       NET_WM_STATE_MAXIMIZED_HORZ :=
         fst (GetAtom ''_NET_WM_STATE_MAXIMIZED_HORZ'' (server ''_NET_WM_STATE_MAXIMIZED_HORZ'')),
       NET_MOVERESIZE_WINDOW :=
         fst (GetAtom ''_NET_MOVERESIZE_WINDOW'' (server ''_NET_MOVERESIZE_WINDOW'')),
       NET_REQUEST_FRAME_EXTENTS :=
         fst (GetAtom ''_NET_REQUEST_FRAME_EXTENTS'' (server ''_NET_REQUEST_FRAME_EXTENTS'')),
       NET_FRAME_EXTENTS := fst (GetAtom ''_NET_FRAME_EXTENTS'' (server ''_NET_FRAME_EXTENTS'')),
       NET_WM_PID := fst (GetAtom ''_NET_WM_PID'' (server ''_NET_WM_PID''))\<rparr>"
  by (simp add: InitializeAtoms_def Let_def case_prod_beta)

text \<open>
  The functions that use the atoms afterwards read them from the fields of the window:
  none of them asks the server to intern a name, and the property query of GetWMStates
  carries the \<open>NET_WM_STATE\<close> field.
\<close>

lemma interned_names_GetWMStates:
  "interned_names (snd (GetWMStates reply error w)) = []"
  by (simp add: GetWMStates_def Let_def split: option.splits)

lemma interned_names_SetFullScreenState:
  "interned_names (snd (SetFullScreenState fullScreenState reply error xkbError w)) = []"
  by (simp add: SetFullScreenState_effects interned_names_append interned_names_GetWMStates)

lemma interned_names_HandleXcbEvent:
  "interned_names (snd (HandleXcbEvent s_XcbResponseTypeMask event w)) = []"
  by (simp add: HandleXcbEvent_def WindowSizeChanged_def Deactivate_def Let_def)

lemma GetWMStates_request:
  "hd (snd (GetWMStates reply error w)) =
     XcbGetProperty 0 (m_xcbWindow w) (NET_WM_STATE w) XCB_ATOM_ATOM 0 1024"
  by (simp add: GetWMStates_def Let_def split: option.splits)

text \<open>
  C8, as the code has it. GetAtom keeps no cache: every call sends one InternAtom
  request for its name and returns the atom of that call's reply, \<open>XCB_NONE\<close> when
  there is none. InitializeAtoms asks for thirteen names, all different, so each name is
  resolved once, and it returns the window with each of the thirteen atom fields set to
  the atom GetAtom returned for its name and every other field as it was. The later
  uses of the atoms, in GetWMStates, SetFullScreenState and HandleXcbEvent, send no
  InternAtom request; the property query that GetWMStates sends on the window that
  InitializeAtoms returned carries the atom stored for \<open>_NET_WM_STATE\<close>.
\<close>

theorem GetAtom_round_trip:
  "fst (GetAtom atomName reply) = (case reply of None \<Rightarrow> XCB_NONE | Some r \<Rightarrow> atom r) \<and>
   interned_names (snd (GetAtom atomName reply)) = [atomName] \<and>
   interned_names (snd (InitializeAtoms server w)) =
     [''_NET_ACTIVE_WINDOW'', ''_NET_WM_BYPASS_COMPOSITOR'', ''WM_PROTOCOLS'',
      ''WM_DELETE_WINDOW'', ''_NET_WM_PING'', ''_NET_WM_STATE'', ''_NET_WM_STATE_FULLSCREEN'',
      ''_NET_WM_STATE_MAXIMIZED_VERT'', ''_NET_WM_STATE_MAXIMIZED_HORZ'',
      ''_NET_MOVERESIZE_WINDOW'', ''_NET_REQUEST_FRAME_EXTENTS'', ''_NET_FRAME_EXTENTS'',
      ''_NET_WM_PID''] \<and>
   distinct (interned_names (snd (InitializeAtoms server w))) \<and>
   fst (InitializeAtoms server w) =
     w\<lparr>NET_ACTIVE_WINDOW := fst (GetAtom ''_NET_ACTIVE_WINDOW'' (server ''_NET_ACTIVE_WINDOW'')),
       NET_WM_BYPASS_COMPOSITOR :=
         fst (GetAtom ''_NET_WM_BYPASS_COMPOSITOR'' (server ''_NET_WM_BYPASS_COMPOSITOR'')),
       WM_PROTOCOLS := fst (GetAtom ''WM_PROTOCOLS'' (server ''WM_PROTOCOLS'')),
       WM_DELETE_WINDOW := fst (GetAtom ''WM_DELETE_WINDOW'' (server ''WM_DELETE_WINDOW'')),
       NET_WM_PING := fst (GetAtom ''_NET_WM_PING'' (server ''_NET_WM_PING'')),
       NET_WM_STATE := fst (GetAtom ''_NET_WM_STATE'' (server ''_NET_WM_STATE'')),
       NET_WM_STATE_FULLSCREEN :=
         fst (GetAtom ''_NET_WM_STATE_FULLSCREEN'' (server ''_NET_WM_STATE_FULLSCREEN'')),
       NET_WM_STATE_MAXIMIZED_VERT :=
         fst (GetAtom ''_NET_WM_STATE_MAXIMIZED_VERT'' (server ''_NET_WM_STATE_MAXIMIZED_VERT'')),
       NET_WM_STATE_MAXIMIZED_HORZ :=
         fst (GetAtom ''_NET_WM_STATE_MAXIMIZED_HORZ'' (server ''_NET_WM_STATE_MAXIMIZED_HORZ'')),
       NET_MOVERESIZE_WINDOW :=
         fst (GetAtom ''_NET_MOVERESIZE_WINDOW'' (server ''_NET_MOVERESIZE_WINDOW'')),
       NET_REQUEST_FRAME_EXTENTS :=
         fst (GetAtom ''_NET_REQUEST_FRAME_EXTENTS'' (server ''_NET_REQUEST_FRAME_EXTENTS'')),
       NET_FRAME_EXTENTS := fst (GetAtom ''_NET_FRAME_EXTENTS'' (server ''_NET_FRAME_EXTENTS'')),
       NET_WM_PID := fst (GetAtom ''_NET_WM_PID'' (server ''_NET_WM_PID''))\<rparr> \<and>
   interned_names (snd (GetWMStates xkbGetPropertyReply error w')) = [] \<and>
   hd (snd (GetWMStates xkbGetPropertyReply error (fst (InitializeAtoms server w)))) =
     XcbGetProperty 0 (m_xcbWindow w)
       (fst (GetAtom ''_NET_WM_STATE'' (server ''_NET_WM_STATE''))) XCB_ATOM_ATOM 0 1024 \<and>
   interned_names
     (snd (SetFullScreenState fullScreenState xkbGetPropertyReply error xkbError w')) = [] \<and>
   interned_names (snd (HandleXcbEvent s_XcbResponseTypeMask event w')) = []"
proof (intro conjI)
  show "fst (GetAtom atomName reply) = (case reply of None \<Rightarrow> XCB_NONE | Some r \<Rightarrow> atom r)"
    by (simp add: GetAtom_def split: option.splits)
  show "interned_names (snd (GetAtom atomName reply)) = [atomName]"
    by (rule interned_names_GetAtom)
  show "interned_names (snd (InitializeAtoms server w)) =
     [''_NET_ACTIVE_WINDOW'', ''_NET_WM_BYPASS_COMPOSITOR'', ''WM_PROTOCOLS'',
      ''WM_DELETE_WINDOW'', ''_NET_WM_PING'', ''_NET_WM_STATE'', ''_NET_WM_STATE_FULLSCREEN'',
      ''_NET_WM_STATE_MAXIMIZED_VERT'', ''_NET_WM_STATE_MAXIMIZED_HORZ'',
      ''_NET_MOVERESIZE_WINDOW'', ''_NET_REQUEST_FRAME_EXTENTS'', ''_NET_FRAME_EXTENTS'',
      ''_NET_WM_PID'']"
    by (rule interned_names_InitializeAtoms)
  show "distinct (interned_names (snd (InitializeAtoms server w)))"
    unfolding interned_names_InitializeAtoms by simp
  show "fst (InitializeAtoms server w) =
     w\<lparr>NET_ACTIVE_WINDOW := fst (GetAtom ''_NET_ACTIVE_WINDOW'' (server ''_NET_ACTIVE_WINDOW'')),
       NET_WM_BYPASS_COMPOSITOR :=
         fst (GetAtom ''_NET_WM_BYPASS_COMPOSITOR'' (server ''_NET_WM_BYPASS_COMPOSITOR'')),
       WM_PROTOCOLS := fst (GetAtom ''WM_PROTOCOLS'' (server ''WM_PROTOCOLS'')),
       WM_DELETE_WINDOW := fst (GetAtom ''WM_DELETE_WINDOW'' (server ''WM_DELETE_WINDOW'')),
       NET_WM_PING := fst (GetAtom ''_NET_WM_PING'' (server ''_NET_WM_PING'')),
       NET_WM_STATE := fst (GetAtom ''_NET_WM_STATE'' (server ''_NET_WM_STATE'')),
       NET_WM_STATE_FULLSCREEN :=
         fst (GetAtom ''_NET_WM_STATE_FULLSCREEN'' (server ''_NET_WM_STATE_FULLSCREEN'')),
       NET_WM_STATE_MAXIMIZED_VERT :=
         fst (GetAtom ''_NET_WM_STATE_MAXIMIZED_VERT'' (server ''_NET_WM_STATE_MAXIMIZED_VERT'')),
       NET_WM_STATE_MAXIMIZED_HORZ :=
         fst (GetAtom ''_NET_WM_STATE_MAXIMIZED_HORZ'' (server ''_NET_WM_STATE_MAXIMIZED_HORZ'')),
       NET_MOVERESIZE_WINDOW :=
         fst (GetAtom ''_NET_MOVERESIZE_WINDOW'' (server ''_NET_MOVERESIZE_WINDOW'')),
       NET_REQUEST_FRAME_EXTENTS :=
         fst (GetAtom ''_NET_REQUEST_FRAME_EXTENTS'' (server ''_NET_REQUEST_FRAME_EXTENTS'')),
       NET_FRAME_EXTENTS := fst (GetAtom ''_NET_FRAME_EXTENTS'' (server ''_NET_FRAME_EXTENTS'')),
       NET_WM_PID := fst (GetAtom ''_NET_WM_PID'' (server ''_NET_WM_PID''))\<rparr>"
    by (rule InitializeAtoms_window)
  show "interned_names (snd (GetWMStates xkbGetPropertyReply error w')) = []"
    by (rule interned_names_GetWMStates)
  show "hd (snd (GetWMStates xkbGetPropertyReply error (fst (InitializeAtoms server w)))) =
     XcbGetProperty 0 (m_xcbWindow w)
       (fst (GetAtom ''_NET_WM_STATE'' (server ''_NET_WM_STATE''))) XCB_ATOM_ATOM 0 1024"
    by (simp add: GetWMStates_request InitializeAtoms_window)
  show "interned_names
     (snd (SetFullScreenState fullScreenState xkbGetPropertyReply error xkbError w')) = []"
    by (rule interned_names_SetFullScreenState)
  show "interned_names (snd (HandleXcbEvent s_XcbResponseTypeMask event w')) = []"
    by (rule interned_names_HandleXcbEvent)
qed

theorem GetAtom_round_trip_witness:
  "fst (InitializeAtoms example_server unresolved_window) = example_window \<and>
   interned_names
     (snd (SetFullScreenState True (Some (atoms_reply [308])) None None example_window)) = [] \<and>
   hd (snd (GetWMStates (Some (atoms_reply [308])) None
              (fst (InitializeAtoms example_server unresolved_window)))) =
     XcbGetProperty 0 2 305 4 0 1024"
proof -
  note all = GetAtom_round_trip
    [of "''_NET_WM_STATE''" "example_server ''_NET_WM_STATE''" example_server
        unresolved_window "Some (atoms_reply [308])" None example_window True None 127
        "protocol_message 2 304"]
  note stored = all [THEN conjunct2, THEN conjunct2, THEN conjunct2, THEN conjunct2,
    THEN conjunct1]
  note request = all [THEN conjunct2, THEN conjunct2, THEN conjunct2, THEN conjunct2,
    THEN conjunct2, THEN conjunct2, THEN conjunct1]
  note later = all [THEN conjunct2, THEN conjunct2, THEN conjunct2, THEN conjunct2,
    THEN conjunct2, THEN conjunct2, THEN conjunct2, THEN conjunct1]
  have a: "fst (InitializeAtoms example_server unresolved_window) = example_window"
    unfolding stored
    by (simp add: GetAtom_def example_server_def unresolved_window_def example_window_def)
  have c: "hd (snd (GetWMStates (Some (atoms_reply [308])) None
              (fst (InitializeAtoms example_server unresolved_window)))) =
     XcbGetProperty 0 2 305 4 0 1024"
    unfolding request
    by (simp add: GetAtom_def example_server_def unresolved_window_def example_window_def
        XCB_ATOM_ATOM_def)
  from a later c show ?thesis
    by blast
qed

text \<open>
  Resolving \<open>WM_PROTOCOLS\<close> twice, the server answering 302 both times: the same atom,
  and two requests.
\<close>

theorem GetAtom_second_round_trip:
  "fst (GetAtom ''WM_PROTOCOLS'' (Some \<lparr>atom = 302\<rparr>)) = 302 \<and>
   filter is_server_request
     (snd (GetAtom ''WM_PROTOCOLS'' (Some \<lparr>atom = 302\<rparr>)) @
      snd (GetAtom ''WM_PROTOCOLS'' (Some \<lparr>atom = 302\<rparr>))) =
     [XcbInternAtom 0 12 ''WM_PROTOCOLS'', XcbInternAtom 0 12 ''WM_PROTOCOLS'']"
  by (simp add: GetAtom_def)

end
